theory Spec2Isabelle
  imports Complex_Main
begin

section \<open>JavaScript strings\<close>

text \<open>
  Strings are lists of code units; the model covers the code units below 256, which is
  what the listings and status texts read by this program are made of. The functions
  below are the \<open>String.prototype\<close> methods and regular-expression pieces the source uses.
\<close>

definition startsWith :: "string \<Rightarrow> string \<Rightarrow> bool" where
  "startsWith s p = (take (length p) s = p)"

fun includes_str :: "string \<Rightarrow> string \<Rightarrow> bool" where
  "includes_str [] p = (p = [])"
| "includes_str (c # cs) p = (startsWith (c # cs) p \<or> includes_str cs p)"

text \<open>\<open>s.split(d)\<close> for a one-character separator: never empty, keeps empty pieces.\<close>

fun split :: "char \<Rightarrow> string \<Rightarrow> string list" where
  "split d [] = [[]]"
| "split d (c # cs) =
     (if c = d then [] # split d cs
      else (case split d cs of [] \<Rightarrow> [[c]] | l # ls \<Rightarrow> (c # l) # ls))"

text \<open>\<open>\d\<close> is an ASCII digit; \<open>\s\<close> and \<open>trim\<close> share one set of white space.\<close>

definition is_digit :: "char \<Rightarrow> bool" where
  "is_digit c = (48 \<le> (of_char c :: nat) \<and> (of_char c :: nat) \<le> 57)"

definition is_space :: "char \<Rightarrow> bool" where
  "is_space c = ((of_char c :: nat) \<in> {9, 10, 11, 12, 13, 32, 160})"

definition trim :: "string \<Rightarrow> string" where
  "trim s = rev (dropWhile is_space (rev (dropWhile is_space s)))"

text \<open>The value \<open>parseInt(ds, 10)\<close> of a string of decimal digits.\<close>

definition digits_value :: "string \<Rightarrow> nat" where
  "digits_value ds = foldl (\<lambda>n c. 10 * n + ((of_char c :: nat) - 48)) 0 ds"

text \<open>The decimal numeral that a template literal prints for a natural number.\<close>

fun decimal :: "nat \<Rightarrow> string" where
  "decimal n =
     (if n < 10 then [''0123456789'' ! n]
      else decimal (n div 10) @ [''0123456789'' ! (n mod 10)])"

text \<open>
  An unanchored regular expression is tried at every start position from the left;
  \<open>m\<close> is the match attempt at one position.
\<close>

fun regex_search :: "(string \<Rightarrow> 'a option) \<Rightarrow> string \<Rightarrow> 'a option" where
  "regex_search m [] = m []"
| "regex_search m (c # cs) =
     (case m (c # cs) of Some r \<Rightarrow> Some r | None \<Rightarrow> regex_search m cs)"

section \<open>Known services (\<open>server/services-config.js\<close>)\<close>

record known_service =
  kname :: string
  kicon :: string
  kcheckType :: string
  kpath :: "string option"
  kinterface :: "string option"

definition known ::
    "string \<Rightarrow> string \<Rightarrow> string \<Rightarrow> string option \<Rightarrow> string option \<Rightarrow> known_service" where
  "known n i c p f = \<lparr>kname = n, kicon = i, kcheckType = c, kpath = p, kinterface = f\<rparr>"

text \<open>
  The object literals \<open>KNOWN_SERVICES\<close> and \<open>KNOWN_PROCESSES\<close>, as association lists
  over their own keys; \<open>KNOWN_SERVICES[port]\<close> is \<open>map_of KNOWN_SERVICES port\<close>. A key
  that is not listed is looked up as \<open>undefined\<close>: the names every object inherits
  (\<open>constructor\<close>, \<open>toString\<close> and the like) are not taken to occur as process names.
\<close>

definition KNOWN_SERVICES :: "(nat \<times> known_service) list" where
  "KNOWN_SERVICES =
  [(21, known ''FTP'' ''folder'' ''tcp'' None None),
   (22, known ''SSH'' ''terminal'' ''tcp'' None None),
   (25, known ''SMTP'' ''mail'' ''tcp'' None None),
   (53, known ''DNS'' ''globe'' ''dns'' None None),
   (80, known ''HTTP'' ''globe'' ''http'' (Some ''/'') None),
   (81, known ''Nginx Proxy Manager'' ''server'' ''http'' (Some ''/'') None),
   (110, known ''POP3'' ''mail'' ''tcp'' None None),
   (111, known ''RPC'' ''cpu'' ''tcp'' None None),
   (143, known ''IMAP'' ''mail'' ''tcp'' None None),
   (443, known ''HTTPS'' ''lock'' ''http'' (Some ''/'') None),
   (500, known ''IKEv2/IPSec'' ''shield'' ''interface'' None (Some ''ipsec0'')),
   (631, known ''CUPS'' ''printer'' ''http'' (Some ''/'') None),
   (1194, known ''OpenVPN'' ''shield'' ''interface'' None (Some ''tun0'')),
   (1723, known ''PPTP'' ''shield'' ''tcp'' None None),
   (1883, known ''MQTT'' ''radio'' ''tcp'' None None),
   (2049, known ''NFS'' ''hard-drive'' ''tcp'' None None),
   (3000, known ''Grafana'' ''bar-chart'' ''http'' (Some ''/api/health'') None),
   (3001, known ''Pi Dashboard'' ''activity'' ''http'' (Some ''/api/health'') None),
   (3306, known ''MySQL'' ''database'' ''tcp'' None None),
   (4500, known ''IPSec NAT-T'' ''shield'' ''interface'' None (Some ''ipsec0'')),
   (5432, known ''PostgreSQL'' ''database'' ''tcp'' None None),
   (5900, known ''VNC'' ''monitor'' ''tcp'' None None),
   (5984, known ''CouchDB'' ''database'' ''http'' None None),
   (6379, known ''Redis'' ''database'' ''redis'' None None),
   (6881, known ''BitTorrent'' ''download'' ''tcp'' None None),
   (7474, known ''Neo4j'' ''database'' ''http'' None None),
   (7681, known ''ttyd'' ''terminal'' ''http'' (Some ''/'') None),
   (8080, known ''HTTP Proxy'' ''globe'' ''http'' (Some ''/'') None),
   (8086, known ''InfluxDB'' ''database'' ''http'' None None),
   (8096, known ''Jellyfin'' ''film'' ''http'' (Some ''/'') None),
   (8112, known ''Deluge'' ''download'' ''http'' (Some ''/'') None),
   (8123, known ''Home Assistant'' ''home'' ''http'' (Some ''/'') None),
   (8384, known ''Syncthing'' ''refresh-cw'' ''http'' (Some ''/'') None),
   (8443, known ''HTTPS Alt'' ''lock'' ''http'' (Some ''/'') None),
   (8686, known ''Lidarr'' ''music'' ''http'' (Some ''/'') None),
   (8787, known ''Readarr'' ''book'' ''http'' (Some ''/'') None),
   (8989, known ''Sonarr'' ''tv'' ''http'' (Some ''/'') None),
   (9000, known ''Portainer'' ''box'' ''http'' (Some ''/'') None),
   (9042, known ''Cassandra'' ''database'' ''tcp'' None None),
   (9090, known ''Prometheus'' ''bar-chart'' ''http'' (Some ''/-/healthy'') None),
   (9091, known ''Transmission'' ''download'' ''http'' (Some ''/'') None),
   (9117, known ''Jackett'' ''search'' ''http'' (Some ''/'') None),
   (9200, known ''Elasticsearch'' ''database'' ''http'' None None),
   (9696, known ''Prowlarr'' ''search'' ''http'' (Some ''/'') None),
   (10000, known ''Webmin'' ''settings'' ''http'' (Some ''/'') None),
   (11434, known ''Ollama'' ''cpu'' ''http'' (Some ''/'') None),
   (19999, known ''Netdata'' ''activity'' ''http'' (Some ''/'') None),
   (26257, known ''CockroachDB'' ''database'' ''tcp'' None None),
   (27017, known ''MongoDB'' ''database'' ''tcp'' None None),
   (28015, known ''RethinkDB'' ''database'' ''tcp'' None None),
   (32400, known ''Plex'' ''play-circle'' ''http'' (Some ''/web'') None),
   (51413, known ''Transmission P2P'' ''download'' ''tcp'' None None),
   (51820, known ''WireGuard'' ''shield'' ''interface'' None (Some ''wg0'')),
   (58846, known ''Deluge Daemon'' ''download'' ''tcp'' None None)]"

definition KNOWN_PROCESSES :: "(string \<times> known_service) list" where
  "KNOWN_PROCESSES =
  [(''nginx'', known ''Nginx'' ''server'' ''http'' (Some ''/'') None),
   (''apache2'', known ''Apache'' ''server'' ''http'' (Some ''/'') None),
   (''httpd'', known ''Apache'' ''server'' ''http'' (Some ''/'') None),
   (''pihole-FTL'', known ''Pi-hole'' ''shield'' ''http'' (Some ''/admin/'') None),
   (''grafana'', known ''Grafana'' ''bar-chart'' ''http'' (Some ''/api/health'') None),
   (''prometheus'', known ''Prometheus'' ''bar-chart'' ''http'' (Some ''/-/healthy'') None),
   (''node'', known ''Node.js'' ''hexagon'' ''http'' (Some ''/'') None),
   (''java'', known ''Java App'' ''coffee'' ''http'' (Some ''/'') None),
   (''python'', known ''Python App'' ''code'' ''http'' (Some ''/'') None),
   (''deluged'', known ''Deluge'' ''download'' ''http'' (Some ''/'') None),
   (''transmission'', known ''Transmission'' ''download'' ''http'' (Some ''/'') None),
   (''jellyfin'', known ''Jellyfin'' ''film'' ''http'' (Some ''/'') None),
   (''plex'', known ''Plex'' ''play-circle'' ''http'' (Some ''/web'') None),
   (''homeassistant'', known ''Home Assistant'' ''home'' ''http'' (Some ''/'') None),
   (''ollama'', known ''Ollama'' ''cpu'' ''http'' (Some ''/'') None),
   (''redis-server'', known ''Redis'' ''database'' ''redis'' None None),
   (''mariadbd'', known ''MariaDB'' ''database'' ''tcp'' None None),
   (''mysqld'', known ''MySQL'' ''database'' ''tcp'' None None),
   (''postgres'', known ''PostgreSQL'' ''database'' ''tcp'' None None),
   (''mongod'', known ''MongoDB'' ''database'' ''tcp'' None None),
   (''sshd'', known ''SSH'' ''terminal'' ''tcp'' None None),
   (''unbound'', known ''Unbound DNS'' ''globe'' ''dns'' None None)]"

definition VALID_CHECK_TYPES :: "string list" where
  "VALID_CHECK_TYPES = [''http'', ''tcp'', ''redis'', ''dns'', ''interface'']"

text \<open>
  \<open>inferCheckType(port, explicitCheckType)\<close>; a missing \<open>explicitCheckType\<close> is the empty
  string, which is falsy like \<open>undefined\<close>.
\<close>

definition inferCheckType :: "nat \<Rightarrow> string \<Rightarrow> string" where
  "inferCheckType p explicitCheckType =
     (if explicitCheckType \<noteq> [] \<and> explicitCheckType \<in> set VALID_CHECK_TYPES
      then explicitCheckType
      else (case map_of KNOWN_SERVICES p of
              Some k \<Rightarrow> kcheckType k
            | None \<Rightarrow> ''tcp''))"

section \<open>Service discovery scanner (\<open>server/stats.js\<close>)\<close>

definition KNOWN_UDP_SERVICES :: "(nat \<times> known_service) list" where
  "KNOWN_UDP_SERVICES =
  [(500, known ''IKEv2/IPSec'' ''shield'' ''interface'' None (Some ''ipsec0'')),
   (1194, known ''OpenVPN'' ''shield'' ''interface'' None (Some ''tun0'')),
   (1723, known ''PPTP'' ''shield'' ''tcp'' None None),
   (4500, known ''IPSec NAT-T'' ''shield'' ''interface'' None (Some ''ipsec0'')),
   (51820, known ''WireGuard'' ''shield'' ''interface'' None (Some ''wg0''))]"

text \<open>
  The fields a configured service and a discovered one share; a discovered entry adds
  \<open>discovered\<close>, and \<open>process\<close> (TCP entries) or \<open>protocol\<close> (UDP entries), the other
  key being absent.
\<close>

record service_fields =
  name :: string
  port :: nat
  path :: string
  host :: string
  icon :: string
  checkType :: string
  enabled :: bool

record discovered_service = service_fields +
  discovered :: bool
  process :: "string option"
  protocol :: "string option"

text \<open>
  One attempt of \<open>/(?:0\.0\.0\.0|127\.0\.0\.1|\*|::):(\d+)/\<close> at the start of \<open>s\<close>, the
  alternatives in the order given; the result is the captured digits. \<open>\d+\<close> is greedy
  and ends the pattern, so the capture is the whole run of digits.
\<close>

fun addr_at :: "string list \<Rightarrow> string \<Rightarrow> string option" where
  "addr_at [] s = None"
| "addr_at (a # alts) s =
     (if startsWith s a then
        (case drop (length a) s of
           [] \<Rightarrow> addr_at alts s
         | c # rest \<Rightarrow>
             if c = CHR '':'' \<and> takeWhile is_digit rest \<noteq> []
             then Some (takeWhile is_digit rest)
             else addr_at alts s)
      else addr_at alts s)"

definition tcp_addrMatch :: "string \<Rightarrow> string option" where
  "tcp_addrMatch line =
     regex_search (addr_at [''0.0.0.0'', ''127.0.0.1'', ''*'', ''::'']) line"

definition udp_addrMatch :: "string \<Rightarrow> string option" where
  "udp_addrMatch line = regex_search (addr_at [''0.0.0.0'', ''*'', ''::'']) line"

text \<open>
  One attempt of \<open>/users:\(\("([^"]+)"/\<close>: the literal, a non-empty run without a double
  quote, and the closing double quote.
\<close>

definition process_at :: "string \<Rightarrow> string option" where
  "process_at s =
     (if startsWith s ''users:((\"'' then
        (let rest = drop 9 s;
             nm = takeWhile (\<lambda>c. c \<noteq> CHR 0x22) rest
         in if nm \<noteq> [] \<and> length nm < length rest then Some nm else None)
      else None)"

definition processMatch :: "string \<Rightarrow> string option" where
  "processMatch line = regex_search process_at line"

text \<open>
  The \<open>service\<close> variable of the TCP loop: the process table first, then the port table,
  then the generic entry for a port below 10000, else \<open>null\<close>.
\<close>

definition identify :: "string option \<Rightarrow> nat \<Rightarrow> known_service option" where
  "identify processName p =
     (case (case processName of None \<Rightarrow> None | Some pn \<Rightarrow> map_of KNOWN_PROCESSES pn) of
        Some k \<Rightarrow> Some k
      | None \<Rightarrow>
          (case map_of KNOWN_SERVICES p of
             Some k \<Rightarrow> Some k
           | None \<Rightarrow>
               if p < 10000
               then Some (known (case processName of Some pn \<Rightarrow> pn | None \<Rightarrow> ''Port '' @ decimal p)
                            ''server'' ''tcp'' (Some ''/'') None)
               else None))"

text \<open>\<open>x || d\<close> on a string that may be missing or empty.\<close>

definition or_default :: "string \<Rightarrow> string \<Rightarrow> string" where
  "or_default x d = (if x = [] then d else x)"

definition tcp_entry :: "known_service \<Rightarrow> nat \<Rightarrow> string option \<Rightarrow> discovered_service" where
  "tcp_entry k p processName =
     \<lparr>name = kname k, port = p,
      path = or_default (case kpath k of None \<Rightarrow> [] | Some x \<Rightarrow> x) ''/'',
      host = ''localhost'',
      icon = or_default (kicon k) ''server'',
      checkType = or_default (kcheckType k) ''tcp'',
      enabled = True, discovered = True, process = processName, protocol = None\<rparr>"

text \<open>The body of the loop over the TCP lines, on the state \<open>(seen, discovered)\<close>.\<close>

definition tcp_line ::
    "nat set \<times> discovered_service list \<Rightarrow> string \<Rightarrow> nat set \<times> discovered_service list" where
  "tcp_line st line =
     (case st of (seen, found) \<Rightarrow>
        (case tcp_addrMatch line of
           None \<Rightarrow> (seen, found)
         | Some ds \<Rightarrow>
             (let p = digits_value ds in
              if p > 32767 \<or> p \<in> seen then (seen, found)
              else if includes_str line ''127.0.0.1'' then (insert p seen, found)
              else (let processName = processMatch line in
                    case identify processName p of
                      None \<Rightarrow> (insert p seen, found)
                    | Some k \<Rightarrow> (insert p seen, found @ [tcp_entry k p processName])))))"

definition udp_entry :: "known_service \<Rightarrow> nat \<Rightarrow> discovered_service" where
  "udp_entry k p =
     \<lparr>name = kname k, port = p,
      path = or_default (case kinterface k of None \<Rightarrow> [] | Some x \<Rightarrow> x) [],
      host = ''localhost'', icon = kicon k, checkType = kcheckType k,
      enabled = True, discovered = True, process = None, protocol = Some ''udp''\<rparr>"

definition udp_line ::
    "nat set \<times> discovered_service list \<Rightarrow> string \<Rightarrow> nat set \<times> discovered_service list" where
  "udp_line st line =
     (case st of (seen, found) \<Rightarrow>
        (case udp_addrMatch line of
           None \<Rightarrow> (seen, found)
         | Some ds \<Rightarrow>
             (let p = digits_value ds in
              if p \<in> seen then (seen, found)
              else (case map_of KNOWN_UDP_SERVICES p of
                      None \<Rightarrow> (seen, found)
                    | Some k \<Rightarrow> (insert p seen, found @ [udp_entry k p])))))"

text \<open>
  \<open>discoverServices()\<close>. The two arguments are what the two \<open>execSync\<close> calls return,
  \<open>None\<close> when the call throws: a failing TCP scan leaves the result empty, a failing
  UDP scan leaves \<open>udpOutput\<close> empty. \<open>Array.prototype.sort\<close> is stable, as is
  \<open>sort_key\<close>.
\<close>

definition tcpLines :: "string \<Rightarrow> string list" where
  "tcpLines tcpOutput = filter (\<lambda>l. includes_str l ''LISTEN'') (split CHR 0x0A tcpOutput)"

definition udpLines :: "string \<Rightarrow> string list" where
  "udpLines udpOutput =
     filter (\<lambda>l. includes_str l ''UNCONN'' \<or> includes_str l ''udp'') (split CHR 0x0A udpOutput)"

definition discoverServices :: "string option \<Rightarrow> string option \<Rightarrow> discovered_service list" where
  "discoverServices tcp udp =
     (case tcp of
        None \<Rightarrow> []
      | Some tcpOutput \<Rightarrow>
          (let udpOutput = (case udp of None \<Rightarrow> [] | Some u \<Rightarrow> u);
               st = foldl tcp_line ({}, []) (tcpLines tcpOutput);
               st' = foldl udp_line st (udpLines udpOutput)
           in sort_key port (snd st')))"

text \<open>The port a TCP line is read as: \<open>parseInt(addrMatch[1], 10)\<close>.\<close>

definition tcp_port_of :: "string \<Rightarrow> nat option" where
  "tcp_port_of line = map_option digits_value (tcp_addrMatch line)"

section \<open>Service health checks (\<open>server/index.js\<close>)\<close>

text \<open>
  A configured service: the shared fields and an optional \<open>interface\<close>. A missing string
  field is the empty string and a missing port is 0, falsy like \<open>undefined\<close>; every use in
  the checks has the form \<open>service.x || default\<close>.
\<close>

record service = service_fields +
  interface :: string

datatype status = online | offline | error

text \<open>The value a check resolves with: \<open>{ ...service, status, latency, statusCode }\<close>.\<close>

record health_result = service +
  status :: status
  latency :: "int option"
  statusCode :: "int option"

definition result :: "service \<Rightarrow> status \<Rightarrow> int option \<Rightarrow> int option \<Rightarrow> health_result" where
  "result s st lat code = service.extend s (health_result.fields st lat code)"

text \<open>
  Each check returns a promise and registers callbacks; what happens next is decided by
  the callbacks the runtime invokes. An event is one such invocation, paired with the
  milliseconds elapsed since the check started (\<open>Date.now() - start\<close> at that moment).
  Creating the socket, the request or the resolver is taken to return normally.
\<close>

datatype event =
    HttpResponse int    \<comment> \<open>the response callback of \<open>http.request\<close>, with \<open>res.statusCode\<close>\<close>
  | ReqError            \<comment> \<open>\<open>req.on('error')\<close>\<close>
  | ReqTimeout          \<comment> \<open>\<open>req.on('timeout')\<close>\<close>
  | SockConnect         \<comment> \<open>the connect callback of \<open>socket.connect\<close>\<close>
  | SockData string     \<comment> \<open>\<open>socket.on('data')\<close>, with \<open>data.toString()\<close>\<close>
  | SockError           \<comment> \<open>\<open>socket.on('error')\<close>\<close>
  | DnsDone bool        \<comment> \<open>the callback of \<open>resolver.resolve\<close>; \<open>True\<close> when \<open>err\<close> is set\<close>
  | AccessDone bool     \<comment> \<open>the callback of \<open>fs.access\<close>; \<open>True\<close> when \<open>err\<close> is set\<close>

text \<open>
  The state of one check: the value the promise was resolved with and when (a promise
  keeps its first resolution, later \<open>resolve\<close> calls do nothing), and whether the
  \<open>setTimeout(\<dots>, 3000)\<close> timer is still pending.
\<close>

record probe =
  settled :: "(int \<times> health_result) option"
  timer :: bool

definition resolve :: "int \<Rightarrow> health_result \<Rightarrow> probe \<Rightarrow> probe" where
  "resolve t r pr = (case settled pr of None \<Rightarrow> pr\<lparr>settled := Some (t, r)\<rparr> | Some _ \<Rightarrow> pr)"

definition clearTimeout :: "probe \<Rightarrow> probe" where
  "clearTimeout pr = pr\<lparr>timer := False\<rparr>"

text \<open>
  The timer callback, the same in the four checks that set one:
  \<open>resolve({ ...service, status: 'offline', latency: null })\<close>. It runs when 3000 ms have
  elapsed, unless \<open>clearTimeout\<close> was called before.
\<close>

definition on_timeout :: "service \<Rightarrow> probe \<Rightarrow> probe" where
  "on_timeout s pr =
     (if timer pr then resolve 3000 (result s offline None None) (pr\<lparr>timer := False\<rparr>) else pr)"

text \<open>
  The runtime: events are delivered in order, the timer callback before the first event
  that comes 3000 ms or more after the start, or after the last event. \<open>cb\<close> is the
  check's reaction to an event.
\<close>

fun deliver ::
    "service \<Rightarrow> (int \<Rightarrow> event \<Rightarrow> probe \<Rightarrow> probe) \<Rightarrow> (int \<times> event) list \<Rightarrow> probe \<Rightarrow> probe" where
  "deliver s cb [] pr = on_timeout s pr"
| "deliver s cb ((t, e) # evs) pr =
     deliver s cb evs (cb t e (if 3000 \<le> t then on_timeout s pr else pr))"

text \<open>\<open>checkHttpService\<close>: a \<open>HEAD\<close> request with the three callbacks below.\<close>

fun http_on :: "service \<Rightarrow> int \<Rightarrow> event \<Rightarrow> probe \<Rightarrow> probe" where
  "http_on s t (HttpResponse code) pr =
     resolve t (result s (if code < 500 then online else error) (Some t) (Some code))
       (clearTimeout pr)"
| "http_on s t ReqError pr = resolve t (result s offline None None) (clearTimeout pr)"
| "http_on s t ReqTimeout pr = resolve t (result s offline None None) (clearTimeout pr)"
| "http_on s t _ pr = pr"

definition checkHttpService :: "service \<Rightarrow> (int \<times> event) list \<Rightarrow> probe" where
  "checkHttpService s evs = deliver s (http_on s) evs \<lparr>settled = None, timer = True\<rparr>"

text \<open>\<open>checkTcpService\<close>: a bare connection.\<close>

fun tcp_on :: "service \<Rightarrow> int \<Rightarrow> event \<Rightarrow> probe \<Rightarrow> probe" where
  "tcp_on s t SockConnect pr = resolve t (result s online (Some t) None) (clearTimeout pr)"
| "tcp_on s t SockError pr = resolve t (result s offline None None) (clearTimeout pr)"
| "tcp_on s t _ pr = pr"

definition checkTcpService :: "service \<Rightarrow> (int \<times> event) list \<Rightarrow> probe" where
  "checkTcpService s evs = deliver s (tcp_on s) evs \<lparr>settled = None, timer = True\<rparr>"

text \<open>
  \<open>checkRedisService\<close>: the connect callback only writes \<open>PING\<close>; the first data decides.
\<close>

fun redis_on :: "service \<Rightarrow> int \<Rightarrow> event \<Rightarrow> probe \<Rightarrow> probe" where
  "redis_on s t SockConnect pr = pr"
| "redis_on s t (SockData d) pr =
     resolve t (result s (if includes_str (trim d) ''PONG'' then online else error) (Some t) None)
       (clearTimeout pr)"
| "redis_on s t SockError pr = resolve t (result s offline None None) (clearTimeout pr)"
| "redis_on s t _ pr = pr"

definition checkRedisService :: "service \<Rightarrow> (int \<times> event) list \<Rightarrow> probe" where
  "checkRedisService s evs = deliver s (redis_on s) evs \<lparr>settled = None, timer = True\<rparr>"

text \<open>\<open>checkDnsService\<close>: one resolution of a fixed domain against the service.\<close>

fun dns_on :: "service \<Rightarrow> int \<Rightarrow> event \<Rightarrow> probe \<Rightarrow> probe" where
  "dns_on s t (DnsDone err) pr =
     resolve t (result s (if err then offline else online) (if err then None else Some t) None)
       (clearTimeout pr)"
| "dns_on s t _ pr = pr"

definition checkDnsService :: "service \<Rightarrow> (int \<times> event) list \<Rightarrow> probe" where
  "checkDnsService s evs = deliver s (dns_on s) evs \<lparr>settled = None, timer = True\<rparr>"

text \<open>
  \<open>checkInterfaceService\<close>: \<open>fs.access\<close> on \<open>/sys/class/net/<iface>\<close>. No timer is set.
\<close>

fun interface_on :: "service \<Rightarrow> int \<Rightarrow> event \<Rightarrow> probe \<Rightarrow> probe" where
  "interface_on s t (AccessDone err) pr =
     resolve t (result s (if err then offline else online) (if err then None else Some t) None) pr"
| "interface_on s t _ pr = pr"

definition checkInterfaceService :: "service \<Rightarrow> (int \<times> event) list \<Rightarrow> probe" where
  "checkInterfaceService s evs =
     deliver s (interface_on s) evs \<lparr>settled = None, timer = False\<rparr>"

text \<open>What each check asks of the outside world.\<close>

datatype request =
    Head string nat string      \<comment> \<open>hostname, port, path\<close>
  | Connect nat string          \<comment> \<open>port, host\<close>
  | Resolve string string       \<comment> \<open>name server \<open>ip:port\<close>, domain\<close>
  | Access string               \<comment> \<open>path\<close>

definition ifacePath :: "service \<Rightarrow> string" where
  "ifacePath s = ''/sys/class/net/'' @ or_default (interface s) (or_default (path s) ''wg0'')"

definition dnsServer :: "service \<Rightarrow> string" where
  "dnsServer s =
     (let h = or_default (host s) ''127.0.0.1'';
          p = (if port s = 0 then 53 else port s);
          ip = (if h = ''localhost'' then ''127.0.0.1'' else h)
      in ip @ '':'' @ decimal p)"

text \<open>The dispatcher: \<open>switch (service.checkType)\<close>, \<open>case 'http'\<close> sharing \<open>default\<close>.\<close>

definition checkService :: "service \<Rightarrow> (int \<times> event) list \<Rightarrow> probe" where
  "checkService s evs =
     (if checkType s = ''tcp'' then checkTcpService s evs
      else if checkType s = ''redis'' then checkRedisService s evs
      else if checkType s = ''dns'' then checkDnsService s evs
      else if checkType s = ''interface'' then checkInterfaceService s evs
      else checkHttpService s evs)"

definition dispatched :: "service \<Rightarrow> request" where
  "dispatched s =
     (if checkType s = ''tcp'' \<or> checkType s = ''redis''
        then Connect (port s) (or_default (host s) ''localhost'')
      else if checkType s = ''dns'' then Resolve (dnsServer s) ''google.com''
      else if checkType s = ''interface'' then Access (ifacePath s)
      else Head (or_default (host s) ''localhost'') (port s) (or_default (path s) ''/''))"


section \<open>WireGuard status parsing (\<open>server/index.js\<close>)\<close>

text \<open>
  A JavaScript number that may be \<open>NaN\<close>. Numbers are exact integers and decimals here;
  the doubles of the source agree with them up to about 15 significant digits.
\<close>

datatype number = Num int | NaN

text \<open>\<open>toLowerCase\<close> on the ASCII letters, and a case-insensitive literal of a regex.\<close>

definition lower :: "char \<Rightarrow> char" where
  "lower c =
     (case map_of (zip ''ABCDEFGHIJKLMNOPQRSTUVWXYZ'' ''abcdefghijklmnopqrstuvwxyz'') c of
        Some d \<Rightarrow> d
      | None \<Rightarrow> c)"

definition ci_prefix :: "string \<Rightarrow> string \<Rightarrow> bool" where
  "ci_prefix s p = (map lower (take (length p) s) = map lower p)"

text \<open>
  An alternation of literals under the \<open>i\<close> flag, tried in order at the start of \<open>s\<close>. In
  both uses the alternatives start with different letters, so the first that matches is
  the only one that can.
\<close>

fun first_alt :: "string list \<Rightarrow> string \<Rightarrow> string option" where
  "first_alt [] s = None"
| "first_alt (a # alts) s = (if ci_prefix s a then Some a else first_alt alts s)"

subsection \<open>\<open>parseHandshakeTime\<close>\<close>

text \<open>
  One attempt of \<open>/(\d+)\s*(second|minute|hour|day)s?/gi\<close> at the start of \<open>s\<close>: the
  seconds the part stands for (what the loop body adds after matching the part again
  without the optional \<open>s\<close>) and the length of the match.
\<close>

definition unit_seconds :: "string \<Rightarrow> nat" where
  "unit_seconds u =
     (if startsWith u ''second'' then 1
      else if startsWith u ''minute'' then 60
      else if startsWith u ''hour'' then 3600
      else if startsWith u ''day'' then 86400
      else 0)"

definition time_part_at :: "string \<Rightarrow> (nat \<times> nat) option" where
  "time_part_at s =
     (let ds = takeWhile is_digit s in
      if ds = [] then None
      else (let r1 = drop (length ds) s;
                ws = takeWhile is_space r1;
                r2 = drop (length ws) r1
            in case first_alt [''second'', ''minute'', ''hour'', ''day''] r2 of
                 None \<Rightarrow> None
               | Some u \<Rightarrow>
                   (let r3 = drop (length u) r2;
                        plural = (case r3 of [] \<Rightarrow> 0 | c # _ \<Rightarrow> if lower c = CHR ''s'' then 1 else 0)
                    in Some (digits_value ds * unit_seconds u,
                             length ds + length ws + length u + plural))))"

text \<open>
  All matches from left to right, each search resuming after the previous match; \<open>k\<close>
  is the number of characters still covered by the last match.
\<close>

fun time_parts :: "nat \<Rightarrow> string \<Rightarrow> nat list" where
  "time_parts k [] = []"
| "time_parts (Suc k) (c # cs) = time_parts k cs"
| "time_parts 0 (c # cs) =
     (case time_part_at (c # cs) of
        Some (v, len) \<Rightarrow> v # time_parts (len - 1) cs
      | None \<Rightarrow> time_parts 0 cs)"

definition parseHandshakeTime :: "string \<Rightarrow> nat option" where
  "parseHandshakeTime str =
     (if str = [] then None
      else (case time_parts 0 str of
              [] \<Rightarrow> None
            | parts \<Rightarrow> Some (sum_list parts)))"

definition formatTimeAgo :: "nat option \<Rightarrow> string" where
  "formatTimeAgo seconds =
     (case seconds of
        None \<Rightarrow> ''never''
      | Some n \<Rightarrow>
          if n < 60 then decimal n @ '' sec ago''
          else if n < 3600 then decimal (n div 60) @ '' min ago''
          else if n < 86400 then decimal (n div 3600) @ '' hr ago''
          else decimal (n div 86400) @ '' day ago'')"

subsection \<open>The transfer line\<close>

text \<open>
  \<open>parseFloat\<close> on a string of digits and dots, which is all the capture \<open>([\d.]+)\<close> can
  hold: the longest prefix \<open>digits\<close>, \<open>digits.digits\<close> or \<open>.digits\<close>, as the exact
  decimal \<open>m / 10 ^ e\<close>; \<open>None\<close> is \<open>NaN\<close>.
\<close>

definition parseFloat :: "string \<Rightarrow> (nat \<times> nat) option" where
  "parseFloat v =
     (let a = takeWhile is_digit v;
          b = (case drop (length a) v of
                 [] \<Rightarrow> []
               | c # r \<Rightarrow> if c = CHR ''.'' then takeWhile is_digit r else [])
      in if a = [] \<and> b = [] then None else Some (digits_value (a @ b), length b))"

text \<open>
  \<open>Math.round(v * k)\<close> for \<open>v = m / 10 ^ e\<close>: the nearest integer, a half rounding up.
  The factors are powers of two, so the products are exact in floating point as well.
\<close>

definition round_times :: "nat \<times> nat \<Rightarrow> nat \<Rightarrow> number" where
  "round_times v k =
     (case v of (m, e) \<Rightarrow> Num (int ((2 * m * k + 10 ^ e) div (2 * 10 ^ e))))"

definition parseBytes :: "string \<Rightarrow> string \<Rightarrow> number" where
  "parseBytes val unit =
     (case parseFloat val of
        None \<Rightarrow> NaN
      | Some v \<Rightarrow>
          (let u = map lower unit in
           if u = ''b'' then round_times v 1
           else if u = ''kib'' then round_times v 1024
           else if u = ''mib'' then round_times v (1024 * 1024)
           else if u = ''gib'' then round_times v (1024 * 1024 * 1024)
           else round_times v 1))"

text \<open>
  One attempt of \<open>/([\d.]+)\s*(B|KiB|MiB|GiB)\s*received/i\<close> (or \<open>sent\<close>) at the start of
  \<open>s\<close>, giving the two captures. The runs are taken whole: the character after a run
  cannot continue the match of a shorter one.
\<close>

definition transfer_at :: "string \<Rightarrow> string \<Rightarrow> (string \<times> string) option" where
  "transfer_at kw s =
     (let v = takeWhile (\<lambda>c. is_digit c \<or> c = CHR ''.'') s in
      if v = [] then None
      else (let r1 = dropWhile is_space (drop (length v) s) in
            case first_alt [''B'', ''KiB'', ''MiB'', ''GiB''] r1 of
              None \<Rightarrow> None
            | Some u \<Rightarrow>
                if ci_prefix (dropWhile is_space (drop (length u) r1)) kw
                then Some (v, take (length u) r1)
                else None))"

record wg_transfer =
  received :: number
  sent :: number

text \<open>
  The \<open>transfer:\<close> branch of \<open>parseWgShow\<close> on the text after the label: each clause that
  matches overwrites its own counter, a clause that does not match leaves it alone.
\<close>

definition parseTransfer :: "string \<Rightarrow> wg_transfer \<Rightarrow> wg_transfer" where
  "parseTransfer transferStr tr =
     (let rxMatch = regex_search (transfer_at ''received'') transferStr;
          txMatch = regex_search (transfer_at ''sent'') transferStr;
          tr1 = (case rxMatch of None \<Rightarrow> tr | Some (v, u) \<Rightarrow> tr\<lparr>received := parseBytes v u\<rparr>)
      in case txMatch of None \<Rightarrow> tr1 | Some (v, u) \<Rightarrow> tr1\<lparr>sent := parseBytes v u\<rparr>)"

subsection \<open>\<open>parseWgShow\<close>\<close>

text \<open>
  The fields a parsed peer and a reported client share; a parsed peer adds
  \<open>lastHandshakeSeconds\<close>.
\<close>

record wg_peer_fields =
  publicKey :: string
  endpoint :: "string option"
  lastHandshake :: "int option"
  transfer :: wg_transfer

record wg_peer = wg_peer_fields +
  lastHandshakeSeconds :: "nat option"

record wg_iface =
  name_if :: string
  publicKey_if :: "string option"
  listenPort :: "number option"

text \<open>
  \<open>parseInt(s, 10)\<close>: leading white space, an optional sign, then digits; \<open>NaN\<close> without
  a digit.
\<close>

definition parseInt :: "string \<Rightarrow> number" where
  "parseInt str =
     (let s = dropWhile is_space str;
          neg = (case s of [] \<Rightarrow> False | c # _ \<Rightarrow> c = CHR ''-'');
          body = (case s of [] \<Rightarrow> [] | c # r \<Rightarrow> if c = CHR ''-'' \<or> c = CHR ''+'' then r else s);
          ds = takeWhile is_digit body
      in if ds = [] then NaN
         else Num (if neg then - int (digits_value ds) else int (digits_value ds)))"

text \<open>
  \<open>trimmed.replace(label, '').trim()\<close> for a \<open>trimmed\<close> that starts with \<open>label\<close>: the
  first occurrence is the prefix.
\<close>

definition after_label :: "string \<Rightarrow> string \<Rightarrow> string" where
  "after_label label trimmed = trim (drop (length label) trimmed)"

definition new_peer :: "string \<Rightarrow> wg_peer" where
  "new_peer trimmed =
     \<lparr>publicKey = after_label ''peer:'' trimmed, endpoint = None, lastHandshake = None,
      transfer = \<lparr>received = Num 0, sent = Num 0\<rparr>, lastHandshakeSeconds = None\<rparr>"

text \<open>The "peer details" branch; \<open>date_now\<close> is \<open>Date.now()\<close> in milliseconds.\<close>

definition peer_detail :: "int \<Rightarrow> string \<Rightarrow> wg_peer \<Rightarrow> wg_peer" where
  "peer_detail date_now trimmed currentPeer =
     (if startsWith trimmed ''endpoint:''
        then currentPeer\<lparr>endpoint := Some (after_label ''endpoint:'' trimmed)\<rparr>
      else if startsWith trimmed ''latest handshake:''
        then (let secs = parseHandshakeTime (after_label ''latest handshake:'' trimmed) in
              currentPeer\<lparr>lastHandshakeSeconds := secs,
                          lastHandshake :=
                            (case secs of
                               None \<Rightarrow> lastHandshake currentPeer
                             | Some n \<Rightarrow> Some (date_now div 1000 - int n))\<rparr>)
      else if startsWith trimmed ''transfer:''
        then currentPeer\<lparr>transfer :=
               parseTransfer (after_label ''transfer:'' trimmed) (transfer currentPeer)\<rparr>
      else currentPeer)"

text \<open>
  The loop body, on the state (\<open>result.interface\<close>, \<open>result.peers\<close>, \<open>currentPeer\<close>).
\<close>

definition wg_line ::
    "int \<Rightarrow> wg_iface \<times> wg_peer list \<times> wg_peer option \<Rightarrow> string \<Rightarrow>
     wg_iface \<times> wg_peer list \<times> wg_peer option" where
  "wg_line date_now st line =
     (case st of (iface, peers, currentPeer) \<Rightarrow>
        (let trimmed = trim line in
         if startsWith trimmed ''public key:'' then
           (case currentPeer of
              None \<Rightarrow> (iface\<lparr>publicKey_if := Some (after_label ''public key:'' trimmed)\<rparr>,
                        peers, currentPeer)
            | Some _ \<Rightarrow> (iface, peers, currentPeer))
         else if startsWith trimmed ''listening port:'' then
           (iface\<lparr>listenPort := Some (parseInt (after_label ''listening port:'' trimmed))\<rparr>,
            peers, currentPeer)
         else if startsWith trimmed ''peer:'' then
           (iface,
            (case currentPeer of None \<Rightarrow> peers | Some c \<Rightarrow> peers @ [c]),
            Some (new_peer trimmed))
         else (case currentPeer of
                 None \<Rightarrow> (iface, peers, currentPeer)
               | Some c \<Rightarrow> (iface, peers, Some (peer_detail date_now trimmed c)))))"

record wg_show =
  iface :: wg_iface
  peers :: "wg_peer list"

text \<open>The loop over the lines and the push of the last peer.\<close>

definition parse_lines :: "int \<Rightarrow> string list \<Rightarrow> string \<Rightarrow> wg_show" where
  "parse_lines date_now ls interfaceName =
     (case foldl (wg_line date_now)
             (\<lparr>name_if = interfaceName, publicKey_if = None, listenPort = None\<rparr>, [], None) ls of
        (i, ps, currentPeer) \<Rightarrow>
          \<lparr>iface = i, peers = (case currentPeer of None \<Rightarrow> ps | Some c \<Rightarrow> ps @ [c])\<rparr>)"

definition parseWgShow :: "int \<Rightarrow> string \<Rightarrow> string \<Rightarrow> wg_show" where
  "parseWgShow date_now output interfaceName =
     parse_lines date_now (split CHR 0x0A output) interfaceName"

text \<open>A line that opens a peer block.\<close>

definition is_peer_marker :: "string \<Rightarrow> bool" where
  "is_peer_marker line = startsWith (trim line) ''peer:''"


subsection \<open>\<open>parsePivpnList\<close>\<close>

definition is_base64 :: "char \<Rightarrow> bool" where
  "is_base64 c =
     (let n = (of_char c :: nat) in
      (65 \<le> n \<and> n \<le> 90) \<or> (97 \<le> n \<and> n \<le> 122) \<or> (48 \<le> n \<and> n \<le> 57)
      \<or> c = CHR ''+'' \<or> c = CHR ''/'' \<or> c = CHR ''='')"

text \<open>
  \<open>/^(\S+)\s+([A-Za-z0-9+/=]{44})/\<close>, anchored at the start of the line: the name is the
  whole run up to the first white space, since a shorter run is followed by a character
  \<open>\s+\<close> rejects.
\<close>

definition pivpn_match :: "string \<Rightarrow> (string \<times> string) option" where
  "pivpn_match line =
     (let nm = takeWhile (\<lambda>c. \<not> is_space c) line;
          r1 = drop (length nm) line;
          ws = takeWhile is_space r1;
          key = take 44 (drop (length ws) r1)
      in if nm \<noteq> [] \<and> ws \<noteq> [] \<and> length key = 44 \<and> list_all is_base64 key
         then Some (nm, key) else None)"

definition pivpn_line :: "(string \<rightharpoonup> string) \<Rightarrow> string \<Rightarrow> (string \<rightharpoonup> string)" where
  "pivpn_line clients line =
     (if includes_str line ''Client'' \<and> includes_str line ''Public key'' then clients
      else if includes_str line '':::'' then clients
      else if trim line = [] then clients
      else (case pivpn_match line of
              None \<Rightarrow> clients
            | Some (nm, key) \<Rightarrow> clients(key \<mapsto> nm)))"

definition parsePivpnList :: "string \<Rightarrow> (string \<rightharpoonup> string)" where
  "parsePivpnList output = foldl pivpn_line Map.empty (split CHR 0x0A output)"

subsection \<open>\<open>getWireGuardData\<close>\<close>

text \<open>\<open>/^[a-zA-Z0-9_-]{1,15}$/.test(interfaceName)\<close>.\<close>

definition is_iface_char :: "char \<Rightarrow> bool" where
  "is_iface_char c =
     (let n = (of_char c :: nat) in
      (97 \<le> n \<and> n \<le> 122) \<or> (65 \<le> n \<and> n \<le> 90) \<or> (48 \<le> n \<and> n \<le> 57)
      \<or> c = CHR ''_'' \<or> c = CHR ''-'')"

definition VALID_IFACE_REGEX :: "string \<Rightarrow> bool" where
  "VALID_IFACE_REGEX s = (1 \<le> length s \<and> length s \<le> 15 \<and> list_all is_iface_char s)"

text \<open>
  \<open>settings.wireguard\<close>, and what the function reads from outside: \<open>execAsync\<close> (the
  rejection message or the standard output of a command), \<open>fs.promises.readFile\<close>
  (\<open>None\<close> when it rejects), \<open>Date.now()\<close>, and the collation behind
  \<open>String.prototype.localeCompare\<close>.
\<close>

record wg_config =
  enabled_wg :: bool
  interface_wg :: string

record wg_env =
  exec :: "string \<Rightarrow> string + string"
  readFile :: "string \<Rightarrow> string option"
  dateNow :: int
  localeCompare :: "string \<Rightarrow> string \<Rightarrow> int"

record wg_client = wg_peer_fields +
  client_name :: string
  is_online :: bool
  lastHandshakeAgo :: string

text \<open>
  The three shapes of the value returned: \<open>{ enabled: false }\<close>,
  \<open>{ enabled: true, error }\<close> and \<open>{ enabled: true, interface, clients }\<close>.
\<close>

datatype wg_data =
    WgDisabled
  | WgError string
  | WgStatus wg_iface "wg_client list"

text \<open>\<open>line.trim().split(/\s+/)\<close>: the pieces between runs of white space.\<close>

fun pieces :: "string \<Rightarrow> string \<Rightarrow> string list" where
  "pieces cur [] = [cur]"
| "pieces cur (c # cs) =
     (if is_space c then
        (case cs of
           [] \<Rightarrow> [cur, []]
         | d # _ \<Rightarrow> if is_space d then pieces cur cs else cur # pieces [] cs)
      else pieces (cur @ [c]) cs)"

definition clients_txt_line :: "string \<Rightarrow> string" where
  "clients_txt_line line =
     (case pieces [] (trim line) of
        a # b # _ \<Rightarrow>
          if length b = 44 then a @ ''        '' @ b @ ''      date'' @ [CHR 0x0A] else []
      | _ \<Rightarrow> [])"

text \<open>
  \<open>clients.sort(...)\<close>: a stable sort by the comparator (online first, then by name),
  written as insertion from the right.
\<close>

definition client_cmp :: "(string \<Rightarrow> string \<Rightarrow> int) \<Rightarrow> wg_client \<Rightarrow> wg_client \<Rightarrow> int" where
  "client_cmp coll a b =
     (if is_online a \<noteq> is_online b then (if is_online a then - 1 else 1)
      else coll (client_name a) (client_name b))"

fun insert_cmp :: "('a \<Rightarrow> 'a \<Rightarrow> int) \<Rightarrow> 'a \<Rightarrow> 'a list \<Rightarrow> 'a list" where
  "insert_cmp cmp x [] = [x]"
| "insert_cmp cmp x (y # ys) = (if cmp x y \<le> 0 then x # y # ys else y # insert_cmp cmp x ys)"

definition sort_cmp :: "('a \<Rightarrow> 'a \<Rightarrow> int) \<Rightarrow> 'a list \<Rightarrow> 'a list" where
  "sort_cmp cmp xs = foldr (insert_cmp cmp) xs []"

definition ONLINE_THRESHOLD_SECONDS :: nat where
  "ONLINE_THRESHOLD_SECONDS = 180"

definition to_client :: "(string \<rightharpoonup> string) \<Rightarrow> wg_peer \<Rightarrow> wg_client" where
  "to_client clientNames peer =
     \<lparr>publicKey = publicKey peer,
      endpoint = (case endpoint peer of None \<Rightarrow> None | Some e \<Rightarrow> if e = [] then None else Some e),
      lastHandshake = lastHandshake peer,
      transfer = transfer peer,
      client_name =
        (case clientNames (publicKey peer) of
           None \<Rightarrow> ''unknown''
         | Some n \<Rightarrow> or_default n ''unknown''),
      is_online =
        (case lastHandshakeSeconds peer of
           None \<Rightarrow> False
         | Some n \<Rightarrow> n < ONLINE_THRESHOLD_SECONDS),
      lastHandshakeAgo = formatTimeAgo (lastHandshakeSeconds peer)\<rparr>"

text \<open>
  The part after \<open>wg show\<close> has succeeded: the client names from \<open>pivpn -l\<close> or, when that
  fails, from \<open>clients.txt\<close> (or none), then parsing, naming and sorting. The second
  component lists the commands executed, in order.
\<close>

definition wg_report :: "wg_env \<Rightarrow> string \<Rightarrow> string \<Rightarrow> string list \<Rightarrow> wg_data \<times> string list" where
  "wg_report env interfaceName wgOutput cmds =
     (let pivpnOutput =
            (case exec env ''pivpn -l'' of
               Inr out \<Rightarrow> out
             | Inl _ \<Rightarrow>
                 (case readFile env ''/etc/wireguard/configs/clients.txt'' of
                    None \<Rightarrow> []
                  | Some clientsTxt \<Rightarrow> concat (map clients_txt_line (split CHR 0x0A clientsTxt))));
          wgData = parseWgShow (dateNow env) wgOutput interfaceName;
          clientNames = parsePivpnList pivpnOutput;
          clients = map (to_client clientNames) (peers wgData)
      in (WgStatus (iface wgData) (sort_cmp (client_cmp (localeCompare env)) clients),
          cmds @ [''pivpn -l'']))"

definition getWireGuardData :: "wg_env \<Rightarrow> wg_config option \<Rightarrow> wg_data \<times> string list" where
  "getWireGuardData env wireguard =
     (let wgConfig =
            (case wireguard of
               None \<Rightarrow> \<lparr>enabled_wg = False, interface_wg = ''wg0''\<rparr>
             | Some c \<Rightarrow> c)
      in if \<not> enabled_wg wgConfig then (WgDisabled, [])
         else (let interfaceName = or_default (interface_wg wgConfig) ''wg0'' in
               if \<not> VALID_IFACE_REGEX interfaceName
               then (WgError ''Invalid WireGuard interface name'', [])
               else (case exec env (''wg show '' @ interfaceName) of
                       Inr out \<Rightarrow> wg_report env interfaceName out [''wg show '' @ interfaceName]
                     | Inl _ \<Rightarrow>
                         (case exec env (''sudo wg show '' @ interfaceName) of
                            Inr out \<Rightarrow>
                              wg_report env interfaceName out
                                [''wg show '' @ interfaceName, ''sudo wg show '' @ interfaceName]
                          | Inl msg \<Rightarrow>
                              (WgError (''Failed to get WireGuard status: '' @ msg),
                               [''wg show '' @ interfaceName,
                                ''sudo wg show '' @ interfaceName])))))"

section \<open>Telemetry aggregation (\<open>server/stats.js\<close>, \<open>server/index.js\<close>)\<close>

text \<open>
  The values read from the system are opaque here: the model keeps which reads are made,
  which of them can reject, which rejections are caught, and where each value ends up.
\<close>

type_synonym payload = string

text \<open>
  What the reads of one \<open>getSystemStats()\<close> call yield. The \<open>systeminformation\<close> calls
  return promises, \<open>None\<close> being a rejection. The helpers of this module
  (\<open>getHostOsInfo\<close>, \<open>getHostDisks\<close>, \<open>getDockerContainerStats\<close>, \<open>getOverclockStatus\<close>,
  \<open>getThrottleStatus\<close>, \<open>getHostNetworkInfo\<close>, \<open>getTopProcesses\<close>) wrap their reads in
  \<open>try\<close>/\<open>catch\<close> and always return a value; \<open>getHostOsInfo\<close> may return \<open>null\<close>.
\<close>

record stats_sources =
  si_osInfo :: "payload option"
  si_networkInterfaces :: "payload option"
  getHostOsInfo :: "payload option"
  getHostDisks :: "payload list"
  si_currentLoad :: "payload option"
  si_mem :: "payload option"
  si_cpuTemperature :: "payload option"
  si_time :: "payload option"
  si_networkStats :: "payload option"
  si_cpuCurrentSpeed :: "payload option"
  si_dockerContainers :: "(string \<times> payload) list option"
  getDockerContainerStats :: "string \<rightharpoonup> payload"
  getOverclockStatus :: payload
  getThrottleStatus :: payload
  os_loadavg :: payload
  getHostNetworkInfo :: payload
  getTopProcesses :: "payload list"

text \<open>The module-level \<open>staticCache\<close>.\<close>

record static_cache =
  osInfo :: "payload option"
  hostOsInfo :: "payload option"
  networkInterfaces :: "payload option"
  lastDiskCheck :: int
  disks_cached :: "payload list"
  lastStaticRefresh :: int

definition STATIC_CACHE_TTL :: int where
  "STATIC_CACHE_TTL = 60000"

definition DISK_CACHE_TTL :: int where
  "DISK_CACHE_TTL = 30000"

text \<open>
  A container of the result: its id, the fields copied from the inventory, and its entry
  in the stats map (\<open>None\<close> when there is none and every figure defaults to 0).
\<close>

record container =
  container_id :: string
  inventory :: payload
  container_stats :: "payload option"

text \<open>
  The object \<open>getSystemStats\<close> returns, each section as the values it is computed from.
\<close>

record system_stats =
  cpu :: "payload \<times> payload \<times> payload"
  memory :: payload
  temperature :: "payload \<times> payload"
  load :: "payload \<times> payload"
  os :: "payload \<times> payload option"
  disks :: "payload list"
  containers :: "container list"
  network :: payload
  processes :: "payload list"

text \<open>
  The steps of \<open>getSystemStats()\<close> at time \<open>now\<close> (\<open>Date.now()\<close>). First the two
  refreshes of the cache: the static data when there is none or it is older than a minute
  (a rejected \<open>si.networkInterfaces()\<close> is caught and replaced by \<open>[]\<close>), the disks when
  they are older than 30 seconds.
\<close>

definition static_stale :: "int \<Rightarrow> static_cache \<Rightarrow> bool" where
  "static_stale now c = (osInfo c = None \<or> now - lastStaticRefresh c > STATIC_CACHE_TTL)"

definition refresh_static :: "int \<Rightarrow> stats_sources \<Rightarrow> static_cache \<Rightarrow> static_cache" where
  "refresh_static now src c =
     (if static_stale now c
      then c\<lparr>osInfo := si_osInfo src,
             hostOsInfo := getHostOsInfo src,
             networkInterfaces :=
               (case si_networkInterfaces src of None \<Rightarrow> Some ''[]'' | Some n \<Rightarrow> Some n),
             lastStaticRefresh := now\<rparr>
      else c)"

definition refresh_disks :: "int \<Rightarrow> stats_sources \<Rightarrow> static_cache \<Rightarrow> static_cache" where
  "refresh_disks now src c =
     (if now - lastDiskCheck c > DISK_CACHE_TTL
      then c\<lparr>disks_cached := getHostDisks src, lastDiskCheck := now\<rparr>
      else c)"




record system_info =
  cpu_info :: payload
  system :: "payload \<times> payload"
  memory_info :: "payload \<times> payload"
  os_info :: "payload \<times> payload option"
  baseboard :: payload


text \<open>The \<open>wireguard\<close> key of the response: present when \<open>wireguard.enabled\<close> is true.\<close>

definition wireguard_field :: "wg_env \<Rightarrow> wg_config option \<Rightarrow> wg_data option" where
  "wireguard_field wgenv wgcfg =
     (if fst (getWireGuardData wgenv wgcfg) = WgDisabled then None
      else Some (fst (getWireGuardData wgenv wgcfg)))"

text \<open>
  The handler of \<open>GET /api/v1/system\<close>. The response body merges \<open>stats\<close> and \<open>info\<close> field by
  field; the model keeps the two objects. \<open>services\<close> pairs each enabled service with the
  events its check meets. The outer \<open>Promise.all\<close> rejects as soon as one member rejects,
  which the \<open>catch\<close> turns into a 500; it stays pending while a check is pending.
\<close>

record snapshot =
  timestamp :: int
  stats :: system_stats
  info :: system_info
  services :: "health_result list"
  wireguard :: "wg_data option"







definition wg_env_down :: wg_env where
  "wg_env_down =
     \<lparr>exec = (\<lambda>c. Inl ''Command failed''), readFile = (\<lambda>f. None), dateNow = 1700000000000,
      localeCompare = (\<lambda>a b. 0)\<rparr>"


text \<open>The latency of a resolved check is \<open>null\<close> exactly for \<open>offline\<close>.\<close>

definition latency_rule :: "probe \<Rightarrow> bool" where
  "latency_rule pr =
     (case settled pr of None \<Rightarrow> True | Some (t, r) \<Rightarrow> (latency r = None) = (status r = offline))"



section \<open>Delta metric cache (\<open>server/stats.js\<close>)\<close>

text \<open>
  \<open>cpuCache\<close> is a module-level \<open>Map\<close> from a container id to the last sample
  \<open>{ usageUsec, timeUsec }\<close>. It is the only state \<open>calculateCpuPercent\<close> touches, so
  the function is modelled with the cache passed in and returned.
\<close>

record cpu_sample =
  usageUsec :: int
  timeUsec :: int

type_synonym cpu_cache = "string \<rightharpoonup> cpu_sample"

text \<open>
  The two statements \<open>const cached = cpuCache.get(containerId)\<close> and
  \<open>cpuCache.set(containerId, { usageUsec, timeUsec })\<close> of \<open>calculateCpuPercent\<close>:
  the entry found before the write, and the cache after it.
\<close>

definition cpuCache_get_set ::
    "cpu_cache \<Rightarrow> string \<Rightarrow> cpu_sample \<Rightarrow> cpu_sample option \<times> cpu_cache" where
  "cpuCache_get_set cache containerId s = (cache containerId, cache(containerId \<mapsto> s))"

text \<open>
  \<open>Math.round(x * 10) / 10\<close> on an exact quotient \<open>x\<close>; \<open>Math.round\<close> rounds a half
  towards plus infinity, which is \<open>\<lfloor>x + 1/2\<rfloor>\<close>. Doubles are idealised as rationals.
\<close>

definition round1 :: "rat \<Rightarrow> rat" where
  "round1 x = of_int \<lfloor>x * 10 + 1 / 2\<rfloor> / 10"

text \<open>
  \<open>calculateCpuPercent(containerId, currentUsageUsec)\<close>. \<open>NUM_CPUS\<close> is
  \<open>os.cpus().length\<close> and \<open>date_now\<close> is the value of \<open>Date.now()\<close> (milliseconds) read
  by this call; \<open>currentUsageUsec\<close> is \<open>None\<close> for \<open>null\<close>.
\<close>

definition calculateCpuPercent ::
    "nat \<Rightarrow> int \<Rightarrow> cpu_cache \<Rightarrow> string \<Rightarrow> int option \<Rightarrow> rat \<times> cpu_cache" where
  "calculateCpuPercent NUM_CPUS date_now cache containerId currentUsageUsec =
     (case currentUsageUsec of
        None \<Rightarrow> (0, cache)
      | Some cur \<Rightarrow>
          (let now = date_now * 1000;
               (cached, cache') =
                 cpuCache_get_set cache containerId \<lparr>usageUsec = cur, timeUsec = now\<rparr>
           in case cached of
                None \<Rightarrow> (0, cache')
              | Some c \<Rightarrow>
                  (let deltaUsage = cur - usageUsec c;
                       deltaTime = now - timeUsec c
                   in if deltaTime \<le> 0 \<or> deltaUsage < 0 then (0, cache')
                      else (round1 (of_int deltaUsage / of_int deltaTime * 100 / of_nat NUM_CPUS),
                            cache'))))"




section \<open>Properties\<close>

subsection \<open>Delta metric cache\<close>




text \<open>
  Two samples one second apart, 1000000 and 2000000 microseconds of CPU, on four cores:
  25 percent.
\<close>

lemma cpu_rate_example:
  "fst (calculateCpuPercent 4 2000
          [''c1'' \<mapsto> \<lparr>usageUsec = 1000000, timeUsec = 1000 * 1000\<rparr>] ''c1'' (Some 2000000)) = 25"
proof -
  have "\<lfloor>(of_int 501 :: rat) / of_int 2\<rfloor> = 501 div 2"
    by (rule floor_divide_of_int_eq)
  then have "\<lfloor>(501 :: rat) / 2\<rfloor> = 250" by simp
  then show ?thesis
    by (simp add: calculateCpuPercent_def cpuCache_get_set_def round1_def)
qed

subsection \<open>Service discovery scanner\<close>

lemma tcp_line_other:
  assumes "tcp_port_of line \<noteq> Some p"
  shows "(p \<in> fst (tcp_line st line)) = (p \<in> fst st)"
    and "filter (\<lambda>d. port d = p) (snd (tcp_line st line)) = filter (\<lambda>d. port d = p) (snd st)"
  using assms
  by (auto simp: tcp_line_def tcp_port_of_def tcp_entry_def Let_def split: prod.splits option.splits)

lemma tcp_line_seen:
  assumes "p \<in> fst st"
  shows "p \<in> fst (tcp_line st line)"
    and "filter (\<lambda>d. port d = p) (snd (tcp_line st line)) = filter (\<lambda>d. port d = p) (snd st)"
  using assms
  by (auto simp: tcp_line_def tcp_entry_def Let_def split: prod.splits option.splits)

lemma udp_line_seen:
  assumes "p \<in> fst st"
  shows "p \<in> fst (udp_line st line)"
    and "filter (\<lambda>d. port d = p) (snd (udp_line st line)) = filter (\<lambda>d. port d = p) (snd st)"
  using assms
  by (auto simp: udp_line_def udp_entry_def Let_def split: prod.splits option.splits)

lemma foldl_tcp_other:
  "\<forall>l \<in> set ls. tcp_port_of l \<noteq> Some p \<Longrightarrow>
     (p \<in> fst (foldl tcp_line st ls)) = (p \<in> fst st) \<and>
     filter (\<lambda>d. port d = p) (snd (foldl tcp_line st ls)) = filter (\<lambda>d. port d = p) (snd st)"
  by (induction ls arbitrary: st) (simp_all add: tcp_line_other)

lemma foldl_tcp_seen:
  "p \<in> fst st \<Longrightarrow>
     p \<in> fst (foldl tcp_line st ls) \<and>
     filter (\<lambda>d. port d = p) (snd (foldl tcp_line st ls)) = filter (\<lambda>d. port d = p) (snd st)"
  by (induction ls arbitrary: st) (simp_all add: tcp_line_seen)

lemma foldl_udp_seen:
  "p \<in> fst st \<Longrightarrow>
     p \<in> fst (foldl udp_line st ls) \<and>
     filter (\<lambda>d. port d = p) (snd (foldl udp_line st ls)) = filter (\<lambda>d. port d = p) (snd st)"
  by (induction ls arbitrary: st) (simp_all add: udp_line_seen)

lemma tcp_line_first:
  assumes "tcp_port_of line = Some p" "p \<le> 32767" "p \<notin> fst st"
  shows "p \<in> fst (tcp_line st line)"
    and "filter (\<lambda>d. port d = p) (snd (tcp_line st line)) =
           filter (\<lambda>d. port d = p) (snd st) @
           (if includes_str line ''127.0.0.1'' then []
            else case identify (processMatch line) p of
                   None \<Rightarrow> []
                 | Some k \<Rightarrow> [tcp_entry k p (processMatch line)])"
  using assms
  by (auto simp: tcp_line_def tcp_port_of_def tcp_entry_def Let_def split: prod.splits option.splits)


lemma tcp_line_le:
  "\<forall>d \<in> set (snd st). port d \<le> 32767 \<and> protocol d = None \<Longrightarrow>
   \<forall>d \<in> set (snd (tcp_line st line)). port d \<le> 32767 \<and> protocol d = None"
  by (auto simp: tcp_line_def tcp_entry_def Let_def split: prod.splits option.splits)

lemma foldl_tcp_le:
  "\<forall>d \<in> set (snd st). port d \<le> 32767 \<and> protocol d = None \<Longrightarrow>
   \<forall>d \<in> set (snd (foldl tcp_line st ls)). port d \<le> 32767 \<and> protocol d = None"
proof (induction ls arbitrary: st)
  case Nil
  then show ?case by simp
next
  case (Cons l ls)
  show ?case using Cons.IH [OF tcp_line_le [OF Cons.prems]] by simp
qed

lemma udp_line_protocol:
  "\<forall>d \<in> set (snd st). port d = p \<longrightarrow> protocol d = Some ''udp'' \<Longrightarrow>
   \<forall>d \<in> set (snd (udp_line st line)). port d = p \<longrightarrow> protocol d = Some ''udp''"
  by (auto simp: udp_line_def udp_entry_def Let_def split: prod.splits option.splits)

lemma foldl_udp_protocol:
  "\<forall>d \<in> set (snd st). port d = p \<longrightarrow> protocol d = Some ''udp'' \<Longrightarrow>
   \<forall>d \<in> set (snd (foldl udp_line st ls)). port d = p \<longrightarrow> protocol d = Some ''udp''"
proof (induction ls arbitrary: st)
  case Nil
  then show ?case by simp
next
  case (Cons l ls)
  show ?case using Cons.IH [OF udp_line_protocol [OF Cons.prems]] by simp
qed

lemma tcp_pass_result:
  assumes "ls = pre @ line # rest"
      and "\<forall>l \<in> set pre. tcp_port_of l \<noteq> Some p"
      and "tcp_port_of line = Some p" and "p \<le> 32767"
  shows "p \<in> fst (foldl tcp_line ({}, []) ls)"
    and "filter (\<lambda>d. port d = p) (snd (foldl tcp_line ({}, []) ls)) =
           (if includes_str line ''127.0.0.1'' then []
            else case identify (processMatch line) p of
                   None \<Rightarrow> []
                 | Some k \<Rightarrow> [tcp_entry k p (processMatch line)])"
proof -
  let ?s0 = "foldl tcp_line ({}, []) pre"
  have s0: "p \<notin> fst ?s0" "filter (\<lambda>d. port d = p) (snd ?s0) = []"
    using foldl_tcp_other [OF assms(2), of "({}, [])"] by simp_all
  let ?s1 = "tcp_line ?s0 line"
  have s1: "p \<in> fst ?s1"
    "filter (\<lambda>d. port d = p) (snd ?s1) =
           (if includes_str line ''127.0.0.1'' then []
            else case identify (processMatch line) p of
                   None \<Rightarrow> []
                 | Some k \<Rightarrow> [tcp_entry k p (processMatch line)])"
    using tcp_line_first [OF assms(3) assms(4) s0(1)] s0(2) by simp_all
  have fold: "foldl tcp_line ({}, []) ls = foldl tcp_line ?s1 rest"
    by (simp add: assms(1))
  show "p \<in> fst (foldl tcp_line ({}, []) ls)"
    using foldl_tcp_seen [OF s1(1), of rest] fold by simp
  show "filter (\<lambda>d. port d = p) (snd (foldl tcp_line ({}, []) ls)) =
           (if includes_str line ''127.0.0.1'' then []
            else case identify (processMatch line) p of
                   None \<Rightarrow> []
                 | Some k \<Rightarrow> [tcp_entry k p (processMatch line)])"
    using foldl_tcp_seen [OF s1(1), of rest] fold s1(2) by simp
qed

lemma discover_port_entries:
  assumes "tcpLines tcpOutput = pre @ line # rest"
      and "\<forall>l \<in> set pre. tcp_port_of l \<noteq> Some p"
      and "tcp_port_of line = Some p" and "p \<le> 32767"
  shows "filter (\<lambda>d. port d = p) (discoverServices (Some tcpOutput) udp) =
           (if includes_str line ''127.0.0.1'' then []
            else case identify (processMatch line) p of
                   None \<Rightarrow> []
                 | Some k \<Rightarrow> [tcp_entry k p (processMatch line)])"
  using tcp_pass_result [OF assms] foldl_udp_seen [of p "foldl tcp_line ({}, []) (tcpLines tcpOutput)"]
  by (simp add: discoverServices_def Let_def sort_key_stable)

lemma discover_tcp_high:
  "\<forall>d \<in> set (discoverServices tcp udp). 32767 < port d \<longrightarrow> protocol d = Some ''udp''"
proof (cases tcp)
  case None
  then show ?thesis by (simp add: discoverServices_def)
next
  case (Some out)
  have "\<forall>d \<in> set (snd (foldl tcp_line ({}, []) (tcpLines out))). port d \<le> 32767 \<and> protocol d = None"
    by (rule foldl_tcp_le) simp
  then have "\<forall>p. 32767 < p \<longrightarrow> (\<forall>d \<in> set (snd (foldl tcp_line ({}, []) (tcpLines out))). port d = p \<longrightarrow> protocol d = Some ''udp'')"
    by auto
  then have "\<forall>p. 32767 < p \<longrightarrow> (\<forall>d \<in> set (snd (foldl udp_line (foldl tcp_line ({}, []) (tcpLines out)) (udpLines (case udp of None \<Rightarrow> [] | Some u \<Rightarrow> u)))). port d = p \<longrightarrow> protocol d = Some ''udp'')"
    using foldl_udp_protocol by blast
  then show ?thesis using Some by (simp add: discoverServices_def Let_def)
qed

lemmas eval_defs = tcpLines_def udpLines_def tcp_port_of_def tcp_addrMatch_def udp_addrMatch_def
  startsWith_def is_digit_def digits_value_def processMatch_def process_at_def
  known_def or_default_def




text \<open>
  C10 as stated fails for a port above 32767: such a port never enters the seen-set, so the
  UDP pass still reports it. Here 51820 is first listed on a loopback TCP line, then on a
  wildcard TCP line, and is in the result.
\<close>

theorem loopback_first_counterexample:
  "tcpLines ''LISTEN 0 128 127.0.0.1:51820 0.0.0.0:*\<newline>LISTEN 0 128 0.0.0.0:51820 0.0.0.0:*'' =
     [''LISTEN 0 128 127.0.0.1:51820 0.0.0.0:*'', ''LISTEN 0 128 0.0.0.0:51820 0.0.0.0:*'']
   \<and> tcp_port_of ''LISTEN 0 128 127.0.0.1:51820 0.0.0.0:*'' = Some 51820
   \<and> includes_str ''LISTEN 0 128 127.0.0.1:51820 0.0.0.0:*'' ''127.0.0.1''
   \<and> tcp_port_of ''LISTEN 0 128 0.0.0.0:51820 0.0.0.0:*'' = Some 51820
   \<and> \<not> includes_str ''LISTEN 0 128 0.0.0.0:51820 0.0.0.0:*'' ''127.0.0.1''
   \<and> map port
        (discoverServices
           (Some ''LISTEN 0 128 127.0.0.1:51820 0.0.0.0:*\<newline>LISTEN 0 128 0.0.0.0:51820 0.0.0.0:*'')
           (Some ''UNCONN 0 0 0.0.0.0:51820 0.0.0.0:*'')) = [51820]"
  by (simp add: discoverServices_def tcp_line_def udp_line_def udp_entry_def
        KNOWN_UDP_SERVICES_def eval_defs)

text \<open>
  C10, amended. When the first TCP line read as port \<open>p\<close> carries the loopback address,
  whatever lines follow: if \<open>p\<close> is at most 32767 no entry of the result has port \<open>p\<close>;
  in any case the TCP pass reports nothing for \<open>p\<close>, so an entry for \<open>p\<close> can only be one
  found by the UDP pass.
\<close>

theorem loopback_first_hides_port:
  assumes "tcpLines tcpOutput = pre @ line # rest"
      and "\<forall>l \<in> set pre. tcp_port_of l \<noteq> Some p"
      and "tcp_port_of line = Some p"
      and "includes_str line ''127.0.0.1''"
  shows "(p \<le> 32767 \<longrightarrow> p \<notin> port ` set (discoverServices (Some tcpOutput) udp))
       \<and> (\<forall>d \<in> set (discoverServices (Some tcpOutput) udp).
             port d = p \<longrightarrow> protocol d = Some ''udp'')"
proof (cases "p \<le> 32767")
  case True
  have "filter (\<lambda>d. port d = p) (discoverServices (Some tcpOutput) udp) = []"
    using discover_port_entries [OF assms(1-3) True, of udp] assms(4) by simp
  then have "\<forall>d \<in> set (discoverServices (Some tcpOutput) udp). port d \<noteq> p"
    by (simp add: filter_empty_conv)
  then show ?thesis by auto
next
  case False
  then show ?thesis using discover_tcp_high [of "Some tcpOutput" udp] by auto
qed

theorem loopback_first_hides_port_witness:
  "5432 \<notin> port ` set
     (discoverServices
        (Some ''LISTEN 0 244 127.0.0.1:5432 0.0.0.0:*\<newline>LISTEN 0 244 0.0.0.0:5432 0.0.0.0:*'')
        (Some []))"
proof -
  let ?l1 = "''LISTEN 0 244 127.0.0.1:5432 0.0.0.0:*''"
  let ?l2 = "''LISTEN 0 244 0.0.0.0:5432 0.0.0.0:*''"
  let ?out = "?l1 @ CHR 0x0A # ?l2"
  have h1: "tcpLines ?out = [] @ ?l1 # [?l2]" by (simp add: eval_defs)
  have h2: "\<forall>l \<in> set []. tcp_port_of l \<noteq> Some 5432" by simp
  have h3: "tcp_port_of ?l1 = Some 5432" by (simp add: eval_defs)
  have h4: "includes_str ?l1 ''127.0.0.1''" by (simp add: eval_defs)
  show ?thesis
    using loopback_first_hides_port [OF h1 h2 h3 h4, of "Some []"] by simp
qed

subsection \<open>Service health checks\<close>








lemma deliver_preserves:
  assumes cb: "\<And>t e pr. (t, e) \<in> set evs \<Longrightarrow> P pr \<Longrightarrow> P (cb t e pr)"
      and tm: "\<And>pr. P pr \<Longrightarrow> P (on_timeout s pr)"
  shows "P pr \<Longrightarrow> P (deliver s cb evs pr)"
  using cb
proof (induction evs arbitrary: pr)
  case Nil
  then show ?case by (simp add: tm)
next
  case (Cons a evs)
  obtain t e where a: "a = (t, e)" by (cases a)
  have "P (if 3000 \<le> t then on_timeout s pr else pr)"
    using Cons.prems(1) by (simp add: tm)
  then have "P (cb t e (if 3000 \<le> t then on_timeout s pr else pr))"
    using Cons.prems(2) [of t e] by (simp add: a)
  then have "P (deliver s cb evs (cb t e (if 3000 \<le> t then on_timeout s pr else pr)))"
    using Cons.IH Cons.prems(2) by simp
  then show ?case by (simp add: a)
qed

lemma latency_rule_resolve:
  "latency_rule pr \<Longrightarrow> (lat = None) = (st = offline) \<Longrightarrow>
     latency_rule (resolve t (result s st lat code) (clearTimeout pr))"
  "latency_rule pr \<Longrightarrow> (lat = None) = (st = offline) \<Longrightarrow>
     latency_rule (resolve t (result s st lat code) pr)"
  by (auto simp: latency_rule_def resolve_def clearTimeout_def result_def service.defs health_result.defs
        split: option.splits)

lemma latency_rule_timeout: "latency_rule pr \<Longrightarrow> latency_rule (on_timeout s pr)"
  by (auto simp: latency_rule_def on_timeout_def resolve_def result_def service.defs health_result.defs
        split: option.splits)

lemma latency_rule_http: "latency_rule pr \<Longrightarrow> latency_rule (http_on s t e pr)"
  by (cases e) (simp_all add: latency_rule_resolve)
lemma latency_rule_tcp: "latency_rule pr \<Longrightarrow> latency_rule (tcp_on s t e pr)"
  by (cases e) (simp_all add: latency_rule_resolve)
lemma latency_rule_redis: "latency_rule pr \<Longrightarrow> latency_rule (redis_on s t e pr)"
  by (cases e) (simp_all add: latency_rule_resolve)
lemma latency_rule_dns: "latency_rule pr \<Longrightarrow> latency_rule (dns_on s t e pr)"
  by (cases e) (simp_all add: latency_rule_resolve)
lemma latency_rule_interface: "latency_rule pr \<Longrightarrow> latency_rule (interface_on s t e pr)"
  by (cases e) (simp_all add: latency_rule_resolve)

lemma latency_rule_checkService: "latency_rule (checkService s evs)"
proof -
  have init: "latency_rule \<lparr>settled = None, timer = b\<rparr>" for b
    by (simp add: latency_rule_def)
  show ?thesis
    unfolding checkService_def checkHttpService_def checkTcpService_def checkRedisService_def
      checkDnsService_def checkInterfaceService_def
    by (simp add: deliver_preserves [where P = latency_rule] init latency_rule_timeout
          latency_rule_http latency_rule_tcp latency_rule_redis latency_rule_dns
          latency_rule_interface)
qed

text \<open>
  C1, amended. Whatever the service, its checkType and the events: when a check resolves,
  its latency is \<open>null\<close> if and only if its status is \<open>offline\<close>. A result with status
  \<open>error\<close> (an HTTP status of 500 or more, a Redis reply without \<open>PONG\<close>) carries the
  measured latency, like \<open>online\<close>.
\<close>

theorem latency_null_iff_offline:
  "settled (checkService s evs) = Some (t, r) \<Longrightarrow> (latency r = None) = (status r = offline)"
  using latency_rule_checkService [of s evs] by (simp add: latency_rule_def)

lemmas probe_defs = checkService_def checkHttpService_def checkTcpService_def
  checkRedisService_def checkDnsService_def checkInterfaceService_def
  on_timeout_def resolve_def clearTimeout_def result_def service.defs health_result.defs

text \<open>
  C1 as stated fails: an HTTP response with status 503 after 12 ms resolves to
  \<open>error\<close> with latency 12, not \<open>null\<close>.
\<close>

theorem latency_error_counterexample:
  "settled (checkService
      \<lparr>name = ''Grafana'', port = 3000, path = ''/api/health'', host = ''localhost'',
       icon = ''bar-chart'', checkType = ''http'', enabled = True, interface = []\<rparr>
      [(12, HttpResponse 503)]) =
   Some (12,
      \<lparr>name = ''Grafana'', port = 3000, path = ''/api/health'', host = ''localhost'',
       icon = ''bar-chart'', checkType = ''http'', enabled = True, interface = [],
       status = error, latency = Some 12, statusCode = Some 503\<rparr>)"
  by (simp add: probe_defs)

theorem latency_null_iff_offline_witness:
  "settled (checkService
      \<lparr>name = ''Redis'', port = 6379, path = ''/'', host = ''localhost'',
       icon = ''database'', checkType = ''redis'', enabled = True, interface = []\<rparr>
      [(3, SockConnect), (7, SockData ''-ERR unknown command'')]) =
   Some (7,
      \<lparr>name = ''Redis'', port = 6379, path = ''/'', host = ''localhost'',
       icon = ''database'', checkType = ''redis'', enabled = True, interface = [],
       status = error, latency = Some 7, statusCode = None\<rparr>)
   \<and> (latency
      \<lparr>name = ''Redis'', port = 6379, path = ''/'', host = ''localhost'',
       icon = ''database'', checkType = ''redis'', enabled = True, interface = [],
       status = error, latency = Some 7, statusCode = None\<rparr> = None) =
     (status
      \<lparr>name = ''Redis'', port = 6379, path = ''/'', host = ''localhost'',
       icon = ''database'', checkType = ''redis'', enabled = True, interface = [],
       status = error, latency = Some 7, statusCode = None\<rparr> = offline)"
proof -
  have h: "settled (checkService
      \<lparr>name = ''Redis'', port = 6379, path = ''/'', host = ''localhost'',
       icon = ''database'', checkType = ''redis'', enabled = True, interface = []\<rparr>
      [(3, SockConnect), (7, SockData ''-ERR unknown command'')]) =
   Some (7,
      \<lparr>name = ''Redis'', port = 6379, path = ''/'', host = ''localhost'',
       icon = ''database'', checkType = ''redis'', enabled = True, interface = [],
       status = error, latency = Some 7, statusCode = None\<rparr>)"
    by (simp add: probe_defs trim_def is_space_def startsWith_def)
  show ?thesis using h latency_null_iff_offline [OF h] by simp
qed

text \<open>
  C2 as stated fails: for the tag \<open>ftp\<close> and a port that accepts the connection and
  sends nothing, the dispatcher's check ends \<open>offline\<close> at the timer (the HTTP check
  ignores the bare connect), where the TCP check, and the same service tagged \<open>tcp\<close>,
  end \<open>online\<close> after 4 ms.
\<close>

theorem unknown_checkType_counterexample:
  "settled (checkService
      \<lparr>name = ''Files'', port = 21, path = ''/'', host = ''localhost'',
       icon = ''folder'', checkType = ''ftp'', enabled = True, interface = []\<rparr>
      [(4, SockConnect)]) =
   Some (3000,
      \<lparr>name = ''Files'', port = 21, path = ''/'', host = ''localhost'',
       icon = ''folder'', checkType = ''ftp'', enabled = True, interface = [],
       status = offline, latency = None, statusCode = None\<rparr>)
   \<and> settled (checkTcpService
      \<lparr>name = ''Files'', port = 21, path = ''/'', host = ''localhost'',
       icon = ''folder'', checkType = ''ftp'', enabled = True, interface = []\<rparr>
      [(4, SockConnect)]) =
   Some (4,
      \<lparr>name = ''Files'', port = 21, path = ''/'', host = ''localhost'',
       icon = ''folder'', checkType = ''ftp'', enabled = True, interface = [],
       status = online, latency = Some 4, statusCode = None\<rparr>)
   \<and> settled (checkService
      \<lparr>name = ''Files'', port = 21, path = ''/'', host = ''localhost'',
       icon = ''folder'', checkType = ''tcp'', enabled = True, interface = []\<rparr>
      [(4, SockConnect)]) =
   Some (4,
      \<lparr>name = ''Files'', port = 21, path = ''/'', host = ''localhost'',
       icon = ''folder'', checkType = ''tcp'', enabled = True, interface = [],
       status = online, latency = Some 4, statusCode = None\<rparr>)"
  by (simp add: probe_defs)

text \<open>
  C2, amended. A service whose checkType is none of the five known tags is probed by the
  HTTP check (\<open>default\<close> shares the \<open>http\<close> case): a \<open>HEAD\<close> request to host, port and
  path. The \<open>tcp\<close> default belongs to \<open>inferCheckType\<close>, used when a service is saved,
  and only for a port outside the known-port table.
\<close>

theorem unknown_checkType_is_http:
  "checkType s \<notin> set VALID_CHECK_TYPES \<Longrightarrow>
     checkService s evs = checkHttpService s evs
     \<and> dispatched s = Head (or_default (host s) ''localhost'') (port s) (or_default (path s) ''/'')
     \<and> inferCheckType p (checkType s) =
         (case map_of KNOWN_SERVICES p of Some k \<Rightarrow> kcheckType k | None \<Rightarrow> ''tcp'')"
  by (simp add: checkService_def dispatched_def inferCheckType_def VALID_CHECK_TYPES_def)

theorem unknown_checkType_is_http_witness:
  "checkService
      \<lparr>name = ''Files'', port = 21, path = ''/'', host = ''localhost'',
       icon = ''folder'', checkType = ''ftp'', enabled = True, interface = []\<rparr>
      [(4, SockConnect), (9, HttpResponse 200)] =
   checkHttpService
      \<lparr>name = ''Files'', port = 21, path = ''/'', host = ''localhost'',
       icon = ''folder'', checkType = ''ftp'', enabled = True, interface = []\<rparr>
      [(4, SockConnect), (9, HttpResponse 200)]
   \<and> dispatched
      \<lparr>name = ''Files'', port = 21, path = ''/'', host = ''localhost'',
       icon = ''folder'', checkType = ''ftp'', enabled = True, interface = []\<rparr> =
     Head ''localhost'' 21 ''/''
   \<and> inferCheckType 21 ''ftp'' = ''tcp''
   \<and> inferCheckType 8096 ''ftp'' = ''http''"
proof -
  let ?s = "\<lparr>name = ''Files'', port = 21, path = ''/'', host = ''localhost'',
       icon = ''folder'', checkType = ''ftp'', enabled = True, interface = []\<rparr>"
  have h: "checkType ?s \<notin> set VALID_CHECK_TYPES" by (simp add: VALID_CHECK_TYPES_def)
  show ?thesis
    using unknown_checkType_is_http [OF h, of "[(4, SockConnect), (9, HttpResponse 200)]" 21]
          unknown_checkType_is_http [OF h, of "[]" 8096]
    by (simp add: or_default_def KNOWN_SERVICES_def known_def)
qed










subsection \<open>WireGuard status parsing\<close>

lemma handshake_examples:
  "parseHandshakeTime ''3 minutes, 20 seconds ago'' = Some 200"
  "parseHandshakeTime ''1 hour ago'' = Some 3600"
  "parseHandshakeTime [] = None"
  "parseHandshakeTime ''(none)'' = None"
  by (simp_all add: parseHandshakeTime_def time_part_at_def is_digit_def is_space_def
        digits_value_def ci_prefix_def lower_def unit_seconds_def startsWith_def)












lemmas wg_eval = is_peer_marker_def trim_def is_space_def startsWith_def


lemma two_peers_example:
  "peers (parseWgShow 1700000000000
      ''interface: wg0\<newline>  listening port: 51820\<newline>\<newline>peer: KEY1=\<newline>  endpoint: 1.2.3.4:5555\<newline>  transfer: 92 B received, 1.5 KiB sent\<newline>peer: KEY2=\<newline>  latest handshake: 1 minute, 5 seconds ago''
      ''wg0'') =
   [\<lparr>publicKey = ''KEY1='', endpoint = Some ''1.2.3.4:5555'', lastHandshake = None,
     transfer = \<lparr>received = Num 92, sent = Num 1536\<rparr>, lastHandshakeSeconds = None\<rparr>,
    \<lparr>publicKey = ''KEY2='', endpoint = None, lastHandshake = Some 1699999935,
     transfer = \<lparr>received = Num 0, sent = Num 0\<rparr>, lastHandshakeSeconds = Some 65\<rparr>]"
  by (simp add: parseWgShow_def parse_lines_def wg_line_def wg_eval new_peer_def after_label_def
        peer_detail_def parseHandshakeTime_def time_part_at_def is_digit_def digits_value_def
        ci_prefix_def lower_def unit_seconds_def parseTransfer_def transfer_at_def
        parseBytes_def parseFloat_def round_times_def)







lemma wg_report_cmds: "snd (wg_report env n out cmds) = cmds @ [''pivpn -l'']"
  by (simp add: wg_report_def Let_def)

lemma executed_commands_valid:
  "c \<in> set (snd (getWireGuardData env w)) \<Longrightarrow>
     c = ''pivpn -l'' \<or> (\<exists>n. VALID_IFACE_REGEX n \<and> (c = ''wg show '' @ n \<or> c = ''sudo wg show '' @ n))"
  by (auto simp: getWireGuardData_def Let_def wg_report_cmds split: option.splits sum.splits if_splits)

text \<open>
  C7. The name tested is the one the command would be built from: the configured
  interface, or \<open>wg0\<close> when none is configured. Whenever that name fails the pattern, no
  command is executed, and the status pass (monitoring enabled) returns the error
  \<open>Invalid WireGuard interface name\<close>. The name \<open>wg0; rm -rf /\<close> fails the pattern. For
  every configuration and whatever the commands answer, a command that is executed is
  \<open>pivpn -l\<close> or a \<open>wg show\<close> on a name that passed the pattern.
\<close>

theorem invalid_interface_rejected:
  "(\<not> VALID_IFACE_REGEX (or_default (interface_wg cfg) ''wg0'') \<longrightarrow>
      snd (getWireGuardData env (Some cfg)) = []
      \<and> (enabled_wg cfg \<longrightarrow>
           fst (getWireGuardData env (Some cfg)) = WgError ''Invalid WireGuard interface name''))
   \<and> \<not> VALID_IFACE_REGEX ''wg0; rm -rf /''
   \<and> (\<forall>c \<in> set (snd (getWireGuardData env w)).
         c = ''pivpn -l''
         \<or> (\<exists>n. VALID_IFACE_REGEX n \<and> (c = ''wg show '' @ n \<or> c = ''sudo wg show '' @ n)))"
proof (intro conjI ballI impI)
  assume bad: "\<not> VALID_IFACE_REGEX (or_default (interface_wg cfg) ''wg0'')"
  then show "snd (getWireGuardData env (Some cfg)) = []"
    by (simp add: getWireGuardData_def Let_def)
  assume "enabled_wg cfg"
  with bad show "fst (getWireGuardData env (Some cfg)) = WgError ''Invalid WireGuard interface name''"
    by (simp add: getWireGuardData_def Let_def)
next
  show "\<not> VALID_IFACE_REGEX ''wg0; rm -rf /''"
    by (simp add: VALID_IFACE_REGEX_def is_iface_char_def)
next
  fix c assume "c \<in> set (snd (getWireGuardData env w))"
  then show "c = ''pivpn -l''
         \<or> (\<exists>n. VALID_IFACE_REGEX n \<and> (c = ''wg show '' @ n \<or> c = ''sudo wg show '' @ n))"
    by (rule executed_commands_valid)
qed

theorem invalid_interface_rejected_witness:
  "getWireGuardData wg_env_down (Some \<lparr>enabled_wg = True, interface_wg = ''wg0; rm -rf /''\<rparr>) =
     (WgError ''Invalid WireGuard interface name'', [])"
proof -
  have b: "\<not> VALID_IFACE_REGEX
             (or_default (interface_wg \<lparr>enabled_wg = True, interface_wg = ''wg0; rm -rf /''\<rparr>) ''wg0'')"
    by (simp add: or_default_def VALID_IFACE_REGEX_def is_iface_char_def)
  show ?thesis
    using invalid_interface_rejected
            [of "\<lparr>enabled_wg = True, interface_wg = ''wg0; rm -rf /''\<rparr>" wg_env_down None] b
    by (simp add: prod_eq_iff)
qed

subsection \<open>Telemetry aggregation\<close>


lemma refresh_docker [simp]:
  "refresh_static now (src\<lparr>si_dockerContainers := d\<rparr>) c = refresh_static now src c"
  "refresh_disks now (src\<lparr>si_dockerContainers := d\<rparr>) c = refresh_disks now src c"
  by (simp_all add: refresh_static_def refresh_disks_def)





lemma vpn_failure_example:
  "wireguard_field wg_env_down (Some \<lparr>enabled_wg = True, interface_wg = ''wg0''\<rparr>) =
     Some (WgError ''Failed to get WireGuard status: Command failed'')"
  by (simp add: wireguard_field_def getWireGuardData_def wg_env_down_def or_default_def
        VALID_IFACE_REGEX_def is_iface_char_def Let_def)


end
